theory Spec2Isabelle
  imports Main "HOL-Library.AList"
begin

section \<open>The Python runtime, as far as the controller uses it\<close>

text \<open>
  Exceptions are values. A method that can raise returns \<open>(exn + 'a) \<times> state\<close>:
  \<open>Inl e\<close> is the exception that reaches the caller, and the state is the one the
  object is left in (what a method did before it raised stays done).
\<close>

datatype exn =
  KeyError | TypeError | AttributeError | RuntimeError | ValueError
  | OSError | Exception string

text \<open>
  The asyncio event loop, seen from the code that creates and cancels tasks:
  \<open>asyncio.create_task(c)\<close> appends \<open>c\<close> to \<open>spawned\<close> and the new task is
  identified by its position there; \<open>t.cancel()\<close> appends \<open>t\<close> to \<open>cancelled\<close>
  (a cancellation request; the task unwinds at its next suspension point).
\<close>

record 'c aio =
  spawned :: "'c list"
  cancelled :: "nat list"

definition aio_create_task :: "'c \<Rightarrow> 'c aio \<Rightarrow> nat \<times> 'c aio" where
  "aio_create_task c a = (length (spawned a), a\<lparr>spawned := spawned a @ [c]\<rparr>)"

definition aio_cancel :: "nat \<Rightarrow> 'c aio \<Rightarrow> 'c aio" where
  "aio_cancel t a = a\<lparr>cancelled := cancelled a @ [t]\<rparr>"

text \<open>
  A \<open>try: ... return True / except: return False\<close> method: whatever the body raised
  is swallowed and turned into \<open>False\<close>.
\<close>

definition except_False :: "(exn + 'a) \<times> 's \<Rightarrow> (exn + bool) \<times> 's" where
  "except_False r = (case fst r of Inl e \<Rightarrow> (Inr False, snd r) | Inr v \<Rightarrow> (Inr True, snd r))"

section \<open>components/TaskStore.py\<close>

text \<open>
  \<open>self._taskstore\<close> is a dict whose values are either \<open>asyncio.Task\<close> handles
  (tasks of the global scope) or dicts of task handles (one per module). Dicts are
  association lists in insertion order without repeated keys; \<open>AList.update\<close>
  overwrites in place or appends, \<open>AList.delete\<close> removes the key.
\<close>

datatype entry = Task nat | Scope "(string \<times> nat) list"

text \<open>
  A coroutine function handed to \<open>create_task\<close>: its \<open>__name__\<close>, and whether the
  call \<open>coro(*coro_args, **coro_kwargs)\<close> binds its arguments (it raises
  \<open>TypeError\<close> otherwise).
\<close>

record coro =
  coro_name :: string
  coro_binds :: "int list \<Rightarrow> (string \<times> int) list \<Rightarrow> bool"

record tstate =
  taskstore :: "(string \<times> entry) list"
  loop :: "(string \<times> int list \<times> (string \<times> int) list) aio"

datatype create_result = Created | AlreadyExists | Failed exn

text \<open>
  \<open>asyncio.create_task(coro(*coro_args, **coro_kwargs))\<close>. Unpacking \<open>None\<close>
  (the default of both parameters) raises \<open>TypeError\<close>.
\<close>

definition spawn ::
  "coro \<Rightarrow> int list option \<Rightarrow> (string \<times> int) list option \<Rightarrow> tstate \<Rightarrow> exn + (nat \<times> tstate)" where
  "spawn c coro_args coro_kwargs st =
     (case coro_args of
        None \<Rightarrow> Inl TypeError
      | Some args \<Rightarrow>
          (case coro_kwargs of
             None \<Rightarrow> Inl TypeError
           | Some kwargs \<Rightarrow>
               if coro_binds c args kwargs
               then (case aio_create_task (coro_name c, args, kwargs) (loop st) of
                       (t, l) \<Rightarrow> Inr (t, st\<lparr>loop := l\<rparr>))
               else Inl TypeError))"

text \<open>
  \<open>create_task\<close> on the global scope (\<open>module\<close> is \<open>None\<close>, \<open>ts\<close> is the
  top-level dict). With \<open>recreate\<close>, \<open>ts[name].cancel()\<close> on a module's dict
  raises \<open>AttributeError\<close>.
\<close>

definition create_task_global ::
  "coro \<Rightarrow> string \<Rightarrow> bool \<Rightarrow> int list option \<Rightarrow> (string \<times> int) list option \<Rightarrow>
   tstate \<Rightarrow> create_result \<times> tstate" where
  "create_task_global c name recreate coro_args coro_kwargs st =
     (case map_of (taskstore st) name of
        Some (Scope sub) \<Rightarrow>
          if recreate then (Failed AttributeError, st) else (AlreadyExists, st)
      | Some (Task old) \<Rightarrow>
          if recreate
          then (let st1 = st\<lparr>loop := aio_cancel old (loop st)\<rparr> in
                case spawn c coro_args coro_kwargs st1 of
                  Inl e \<Rightarrow> (Failed e, st1)
                | Inr (t, st2) \<Rightarrow>
                    (Created, st2\<lparr>taskstore := AList.update name (Task t) (taskstore st2)\<rparr>))
          else (AlreadyExists, st)
      | None \<Rightarrow>
          (case spawn c coro_args coro_kwargs st of
             Inl e \<Rightarrow> (Failed e, st)
           | Inr (t, st2) \<Rightarrow>
               (Created, st2\<lparr>taskstore := AList.update name (Task t) (taskstore st2)\<rparr>)))"

text \<open>
  \<open>create_task\<close> on a module's scope: \<open>sub\<close> is the module's dict, which the
  caller has already made sure exists.
\<close>

definition create_task_scoped ::
  "coro \<Rightarrow> string \<Rightarrow> string \<Rightarrow> (string \<times> nat) list \<Rightarrow> bool \<Rightarrow> int list option \<Rightarrow>
   (string \<times> int) list option \<Rightarrow> tstate \<Rightarrow> create_result \<times> tstate" where
  "create_task_scoped c name m sub recreate coro_args coro_kwargs st =
     (case map_of sub name of
        Some old \<Rightarrow>
          if recreate
          then (let st1 = st\<lparr>loop := aio_cancel old (loop st)\<rparr> in
                case spawn c coro_args coro_kwargs st1 of
                  Inl e \<Rightarrow> (Failed e, st1)
                | Inr (t, st2) \<Rightarrow>
                    (Created,
                     st2\<lparr>taskstore :=
                       AList.update m (Scope (AList.update name t sub)) (taskstore st2)\<rparr>))
          else (AlreadyExists, st)
      | None \<Rightarrow>
          (case spawn c coro_args coro_kwargs st of
             Inl e \<Rightarrow> (Failed e, st)
           | Inr (t, st2) \<Rightarrow>
               (Created,
                st2\<lparr>taskstore :=
                  AList.update m (Scope (AList.update name t sub)) (taskstore st2)\<rparr>)))"

text \<open>
  \<open>TaskStore.create_task\<close>. The name defaults to \<open>coro.__name__\<close>; a module
  that is not yet a key gets an empty dict before anything else happens. When the
  module's key holds a task of the global scope, \<open>ts\<close> is that task and
  \<open>name in ts\<close> iterates over it: a task that has not finished yields itself once
  and then raises \<open>RuntimeError\<close> (it was not awaited), which the method returns.
  The \<open>RuntimeWarning\<close> of the \<open>recreate=False\<close> branch is returned, not raised:
  \<open>AlreadyExists\<close>.
\<close>

definition create_task ::
  "coro \<Rightarrow> string option \<Rightarrow> string option \<Rightarrow> bool \<Rightarrow> int list option \<Rightarrow>
   (string \<times> int) list option \<Rightarrow> tstate \<Rightarrow> create_result \<times> tstate" where
  "create_task c name module recreate coro_args coro_kwargs st =
     (let name' = (case name of Some n \<Rightarrow> n | None \<Rightarrow> coro_name c) in
      case module of
        None \<Rightarrow> create_task_global c name' recreate coro_args coro_kwargs st
      | Some m \<Rightarrow>
          (let st1 = (if m \<in> fst ` set (taskstore st) then st
                      else st\<lparr>taskstore := AList.update m (Scope []) (taskstore st)\<rparr>) in
           case map_of (taskstore st1) m of
             Some (Scope sub) \<Rightarrow>
               create_task_scoped c name' m sub recreate coro_args coro_kwargs st1
           | Some (Task t) \<Rightarrow> (Failed RuntimeError, st1)
           | None \<Rightarrow> (Failed KeyError, st1)))"

text \<open>
  \<open>TaskStore.retrieve_task\<close>: the stored value, or \<open>None\<close> on any failure.
  With no module the value can be a module's dict.
\<close>

definition retrieve_task :: "string \<Rightarrow> string option \<Rightarrow> tstate \<Rightarrow> entry option" where
  "retrieve_task name module st =
     (case module of
        None \<Rightarrow> map_of (taskstore st) name
      | Some m \<Rightarrow>
          (case map_of (taskstore st) m of
             Some (Scope sub) \<Rightarrow> map_option Task (map_of sub name)
           | Some (Task t) \<Rightarrow> None
           | None \<Rightarrow> None))"

text \<open>
  The loop of \<open>retrieve_all_tasks\<close>. On a module's dict the source calls
  \<open>self.retrieve_all_tasks(self._taskstore[task])\<close>, but the method takes no
  argument besides \<open>self\<close>: the call raises \<open>TypeError\<close>.
\<close>

fun retrieve_all_loop :: "(string \<times> entry) list \<Rightarrow> string list \<Rightarrow> exn + string list" where
  "retrieve_all_loop [] l = Inr l"
| "retrieve_all_loop ((k, Scope sub) # rest) l = Inl TypeError"
| "retrieve_all_loop ((k, Task t) # rest) l = retrieve_all_loop rest (l @ [k])"

text \<open>\<open>TaskStore.retrieve_all_tasks\<close>: the list, or \<open>None\<close> when the body raised.\<close>

definition retrieve_all_tasks :: "tstate \<Rightarrow> string list option" where
  "retrieve_all_tasks st =
     (case retrieve_all_loop (taskstore st) [] of Inl e \<Rightarrow> None | Inr l \<Rightarrow> Some l)"

text \<open>\<open>TaskStore.cancel_task\<close>.\<close>

definition cancel_task_body :: "string \<Rightarrow> string option \<Rightarrow> tstate \<Rightarrow> (exn + unit) \<times> tstate" where
  "cancel_task_body name module st =
     (case module of
        None \<Rightarrow>
          (case map_of (taskstore st) name of
             None \<Rightarrow> (Inl KeyError, st)
           | Some (Scope sub) \<Rightarrow> (Inl AttributeError, st)
           | Some (Task t) \<Rightarrow> (Inr (), st\<lparr>loop := aio_cancel t (loop st)\<rparr>))
      | Some m \<Rightarrow>
          (case map_of (taskstore st) m of
             None \<Rightarrow> (Inl KeyError, st)
           | Some (Task t) \<Rightarrow> (Inl TypeError, st)
           | Some (Scope sub) \<Rightarrow>
               (case map_of sub name of
                  None \<Rightarrow> (Inl KeyError, st)
                | Some t \<Rightarrow> (Inr (), st\<lparr>loop := aio_cancel t (loop st)\<rparr>))))"

definition cancel_task :: "string \<Rightarrow> string option \<Rightarrow> tstate \<Rightarrow> (exn + bool) \<times> tstate" where
  "cancel_task name module st = except_False (cancel_task_body name module st)"

text \<open>
  The loop of \<open>cancel_all_tasks\<close>, over the keys of the top-level dict. The
  recursive call on a module's dict passes an argument the method does not take.
\<close>

fun cancel_all_loop :: "(string \<times> entry) list \<Rightarrow> tstate \<Rightarrow> (exn + unit) \<times> tstate" where
  "cancel_all_loop [] st = (Inr (), st)"
| "cancel_all_loop ((k, Scope sub) # rest) st = (Inl TypeError, st)"
| "cancel_all_loop ((k, Task t) # rest) st =
     cancel_all_loop rest (st\<lparr>loop := aio_cancel t (loop st)\<rparr>)"

definition cancel_all_tasks :: "tstate \<Rightarrow> (exn + bool) \<times> tstate" where
  "cancel_all_tasks st = except_False (cancel_all_loop (taskstore st) st)"

text \<open>
  \<open>TaskStore.delete_task\<close>: the result of \<open>cancel_task\<close> is dropped, then
  \<open>del ts[name]\<close> on the scope. A module that is no key raises \<open>KeyError\<close>, a
  module key that holds a task raises \<open>TypeError\<close>. Only \<open>name\<close> is removed
  from the scope; the scope itself stays.
\<close>

definition delete_task_body :: "string \<Rightarrow> string option \<Rightarrow> tstate \<Rightarrow> (exn + unit) \<times> tstate" where
  "delete_task_body name module st =
     (let st1 = snd (cancel_task name module st) in
      case module of
        None \<Rightarrow>
          if name \<in> fst ` set (taskstore st1)
          then (Inr (), st1\<lparr>taskstore := AList.delete name (taskstore st1)\<rparr>)
          else (Inl KeyError, st1)
      | Some m \<Rightarrow>
          (case map_of (taskstore st1) m of
             None \<Rightarrow> (Inl KeyError, st1)
           | Some (Task t) \<Rightarrow> (Inl TypeError, st1)
           | Some (Scope sub) \<Rightarrow>
               if name \<in> fst ` set sub
               then (Inr (),
                     st1\<lparr>taskstore :=
                       AList.update m (Scope (AList.delete name sub)) (taskstore st1)\<rparr>)
               else (Inl KeyError, st1)))"

definition delete_task :: "string \<Rightarrow> string option \<Rightarrow> tstate \<Rightarrow> (exn + bool) \<times> tstate" where
  "delete_task name module st = except_False (delete_task_body name module st)"

text \<open>
  The loop of \<open>delete_all_tasks\<close> deletes from the dict it iterates over. What the
  iterator does after a deletion depends on the interpreter: CPython's raises
  \<open>RuntimeError\<close> (dictionary changed size during iteration) at the next step, also
  when no key is left; MicroPython's goes on with the remaining keys. \<open>strict\<close>
  chooses the first behaviour. The list argument is what the iterator has yet to
  yield.
\<close>

fun delete_all_loop :: "bool \<Rightarrow> (string \<times> entry) list \<Rightarrow> tstate \<Rightarrow> (exn + unit) \<times> tstate" where
  "delete_all_loop strict [] st = (Inr (), st)"
| "delete_all_loop strict ((k, Scope sub) # rest) st = (Inl TypeError, st)"
| "delete_all_loop strict ((k, Task t) # rest) st =
     (let st1 = snd (cancel_task k None st);
          st2 = st1\<lparr>taskstore := AList.delete k (taskstore st1)\<rparr>
      in if strict then (Inl RuntimeError, st2) else delete_all_loop strict rest st2)"

definition delete_all_tasks :: "bool \<Rightarrow> tstate \<Rightarrow> (exn + bool) \<times> tstate" where
  "delete_all_tasks strict st = except_False (delete_all_loop strict (taskstore st) st)"

definition empty_tstate :: tstate where
  "empty_tstate = \<lparr>taskstore = [], loop = \<lparr>spawned = [], cancelled = []\<rparr>\<rparr>"

definition any_coro :: "string \<Rightarrow> coro" where
  "any_coro n = \<lparr>coro_name = n, coro_binds = (\<lambda>args kwargs. True)\<rparr>"

text \<open>The store after one task \<open>blink\<close> was created for the module \<open>led\<close>.\<close>

definition led_tstate :: tstate where
  "led_tstate = \<lparr>taskstore = [(''led'', Scope [(''blink'', 0)])],
                  loop = \<lparr>spawned = [(''blink'', [], [])], cancelled = []\<rparr>\<rparr>"

section \<open>components/EventStore.py\<close>

text \<open>
  \<open>self._eventstore\<close> maps a module name to a dict that maps an event name to the
  tuple \<open>(asyncio.Event(), [])\<close>: the signal (its flag) and the subscriber list.
  Module keys are strings (every method replaces a module that is no \<open>str\<close> by its
  \<open>__name__\<close>). Event names are annotated \<open>str\<close> but never checked, and some
  methods index the dicts with integers, so names are Python keys in general.
  \<open>KObj\<close> is any other hashable object, such as an \<open>asyncio.Event\<close>.
\<close>

datatype pykey = KStr string | KInt int | KObj nat

text \<open>
  The \<open>module\<close> argument: a \<open>str\<close>, an object that has a \<open>__name__\<close>, or one
  that has none, such as \<open>None\<close> or \<open>5\<close> (\<open>module.__name__\<close> then raises
  \<open>AttributeError\<close>, before any \<open>try\<close>).
\<close>

datatype modarg = MStr string | MNamed string | MNameless

definition resolve_module :: "modarg \<Rightarrow> exn + string" where
  "resolve_module m =
     (case m of MStr s \<Rightarrow> Inr s | MNamed s \<Rightarrow> Inr s | MNameless \<Rightarrow> Inl AttributeError)"

text \<open>
  A subscriber: a plain callable whose body runs when it is called, an \<open>async def\<close>
  function whose call only builds a coroutine object, or a callable whose body raises.
\<close>

datatype action = Callable nat | AsyncFn nat | Raiser nat exn

type_synonym event_tuple = "bool \<times> action list"

record estate =
  eventstore :: "(string \<times> (pykey \<times> event_tuple) list) list"
  app :: "bool option"
  called :: "action list"

text \<open>
  \<open>app\<close> is \<open>self._app\<close>: \<open>None\<close>, or an object that has (\<open>True\<close>) or lacks a
  \<open>taskstore\<close> attribute. \<open>called\<close> logs every call of a subscriber, in order.
\<close>

definition top_lookup ::
  "pykey \<Rightarrow> (string \<times> (pykey \<times> event_tuple) list) list \<Rightarrow> exn + (pykey \<times> event_tuple) list" where
  "top_lookup k es =
     (case k of
        KStr s \<Rightarrow> (case map_of es s of None \<Rightarrow> Inl KeyError | Some d \<Rightarrow> Inr d)
      | KInt i \<Rightarrow> Inl KeyError
      | KObj n \<Rightarrow> Inl KeyError)"

definition dict_lookup :: "pykey \<Rightarrow> (pykey \<times> event_tuple) list \<Rightarrow> exn + event_tuple" where
  "dict_lookup k d = (case map_of d k of None \<Rightarrow> Inl KeyError | Some v \<Rightarrow> Inr v)"

text \<open>\<open>self._eventstore[module][name]\<close>.\<close>

definition event_lookup :: "string \<Rightarrow> pykey \<Rightarrow> estate \<Rightarrow> exn + event_tuple" where
  "event_lookup m name st =
     (case top_lookup (KStr m) (eventstore st) of
        Inl e \<Rightarrow> Inl e
      | Inr d \<Rightarrow> dict_lookup name d)"

definition event_store :: "string \<Rightarrow> pykey \<Rightarrow> event_tuple \<Rightarrow> estate \<Rightarrow> estate" where
  "event_store m name v st =
     st\<lparr>eventstore :=
       AList.update m
         (AList.update name v (case map_of (eventstore st) m of None \<Rightarrow> [] | Some d \<Rightarrow> d))
         (eventstore st)\<rparr>"

text \<open>\<open>EventStore.create_event\<close>.\<close>

definition create_event :: "modarg \<Rightarrow> pykey \<Rightarrow> estate \<Rightarrow> (exn + bool) \<times> estate" where
  "create_event module name st =
     (case resolve_module module of
        Inl e \<Rightarrow> (Inl e, st)
      | Inr m \<Rightarrow>
          (let st1 = (if m \<in> fst ` set (eventstore st) then st
                      else st\<lparr>eventstore := AList.update m [] (eventstore st)\<rparr>) in
           case event_lookup m name st1 of
             Inr v \<Rightarrow> (Inr False, st1)
           | Inl e \<Rightarrow> (Inr True, event_store m name (False, []) st1)))"

text \<open>
  \<open>EventStore.retrieve_event\<close>: the \<open>asyncio.Event\<close> of the tuple, seen through
  its flag, or \<open>None\<close>.
\<close>

definition retrieve_event :: "modarg \<Rightarrow> pykey \<Rightarrow> estate \<Rightarrow> exn + bool option" where
  "retrieve_event module name st =
     (case resolve_module module of
        Inl e \<Rightarrow> Inl e
      | Inr m \<Rightarrow>
          (case event_lookup m name st of Inl e \<Rightarrow> Inr None | Inr v \<Rightarrow> Inr (Some (fst v))))"

text \<open>
  \<open>EventStore.set_event\<close>. The body is \<open>self._eventstore[name][0].set()\<close>: the
  top-level dict is indexed with the event name, the dict found there with \<open>0\<close>, and
  \<open>.set()\<close> is then asked of the tuple, which has no such attribute.
\<close>

definition set_event_body :: "pykey \<Rightarrow> estate \<Rightarrow> (exn + unit) \<times> estate" where
  "set_event_body name st =
     (case top_lookup name (eventstore st) of
        Inl e \<Rightarrow> (Inl e, st)
      | Inr d \<Rightarrow>
          (case dict_lookup (KInt 0) d of
             Inl e \<Rightarrow> (Inl e, st)
           | Inr v \<Rightarrow> (Inl AttributeError, st)))"

definition set_event :: "modarg \<Rightarrow> pykey \<Rightarrow> estate \<Rightarrow> (exn + bool) \<times> estate" where
  "set_event module name st =
     (case resolve_module module of
        Inl e \<Rightarrow> (Inl e, st)
      | Inr m \<Rightarrow> except_False (set_event_body name st))"

text \<open>\<open>EventStore.clear_event\<close>: \<open>self._eventstore[module][name][0].clear()\<close>.\<close>

definition clear_event_body :: "string \<Rightarrow> pykey \<Rightarrow> estate \<Rightarrow> (exn + unit) \<times> estate" where
  "clear_event_body m name st =
     (case event_lookup m name st of
        Inl e \<Rightarrow> (Inl e, st)
      | Inr v \<Rightarrow> (Inr (), event_store m name (False, snd v) st))"

definition clear_event :: "modarg \<Rightarrow> pykey \<Rightarrow> estate \<Rightarrow> (exn + bool) \<times> estate" where
  "clear_event module name st =
     (case resolve_module module of
        Inl e \<Rightarrow> (Inl e, st)
      | Inr m \<Rightarrow> except_False (clear_event_body m name st))"

text \<open>\<open>EventStore.delete_event\<close>: \<open>del self._eventstore[module][name]\<close>.\<close>

definition delete_event_body :: "string \<Rightarrow> pykey \<Rightarrow> estate \<Rightarrow> (exn + unit) \<times> estate" where
  "delete_event_body m name st =
     (case top_lookup (KStr m) (eventstore st) of
        Inl e \<Rightarrow> (Inl e, st)
      | Inr d \<Rightarrow>
          (case dict_lookup name d of
             Inl e \<Rightarrow> (Inl e, st)
           | Inr v \<Rightarrow>
               (Inr (), st\<lparr>eventstore := AList.update m (AList.delete name d) (eventstore st)\<rparr>)))"

definition delete_event :: "modarg \<Rightarrow> pykey \<Rightarrow> estate \<Rightarrow> (exn + bool) \<times> estate" where
  "delete_event module name st =
     (case resolve_module module of
        Inl e \<Rightarrow> (Inl e, st)
      | Inr m \<Rightarrow> except_False (delete_event_body m name st))"

text \<open>\<open>EventStore.subscribe_task\<close>: \<open>...[module][name][1].append(task)\<close>.\<close>

definition subscribe_task_body ::
  "string \<Rightarrow> pykey \<Rightarrow> action \<Rightarrow> estate \<Rightarrow> (exn + unit) \<times> estate" where
  "subscribe_task_body m name task st =
     (case event_lookup m name st of
        Inl e \<Rightarrow> (Inl e, st)
      | Inr v \<Rightarrow> (Inr (), event_store m name (fst v, snd v @ [task]) st))"

definition subscribe_task :: "modarg \<Rightarrow> pykey \<Rightarrow> action \<Rightarrow> estate \<Rightarrow> (exn + bool) \<times> estate" where
  "subscribe_task module name task st =
     (case resolve_module module of
        Inl e \<Rightarrow> (Inl e, st)
      | Inr m \<Rightarrow> except_False (subscribe_task_body m name task st))"

text \<open>
  \<open>EventStore.unsubscribe_task\<close>: \<open>...[module][name][1].remove(task)\<close>, which
  removes the first occurrence and raises \<open>ValueError\<close> when there is none.
\<close>

definition unsubscribe_task_body ::
  "string \<Rightarrow> pykey \<Rightarrow> action \<Rightarrow> estate \<Rightarrow> (exn + unit) \<times> estate" where
  "unsubscribe_task_body m name task st =
     (case event_lookup m name st of
        Inl e \<Rightarrow> (Inl e, st)
      | Inr v \<Rightarrow>
          if task \<in> set (snd v)
          then (Inr (), event_store m name (fst v, remove1 task (snd v)) st)
          else (Inl ValueError, st))"

definition unsubscribe_task :: "modarg \<Rightarrow> pykey \<Rightarrow> action \<Rightarrow> estate \<Rightarrow> (exn + bool) \<times> estate" where
  "unsubscribe_task module name task st =
     (case resolve_module module of
        Inl e \<Rightarrow> (Inl e, st)
      | Inr m \<Rightarrow> except_False (unsubscribe_task_body m name task st))"

text \<open>
  What the loop variable \<open>task\<close> of \<open>execute_subscribers\<close> can be bound to: the
  loop runs over \<open>self._eventstore[event][1]\<close>, and a value of the inner dict is the
  tuple of a signal and a list.
\<close>

datatype pyobj = OEvent bool | OList "action list" | OAction action

datatype call_value = VNone | VCoroutine

text \<open>\<open>task()\<close>: an \<open>asyncio.Event\<close> and a list are not callable.\<close>

definition call_obj :: "pyobj \<Rightarrow> estate \<Rightarrow> (exn + call_value) \<times> estate" where
  "call_obj task st =
     (case task of
        OEvent b \<Rightarrow> (Inl TypeError, st)
      | OList l \<Rightarrow> (Inl TypeError, st)
      | OAction a \<Rightarrow>
          (case a of
             Callable i \<Rightarrow> (Inr VNone, st\<lparr>called := called st @ [a]\<rparr>)
           | AsyncFn i \<Rightarrow> (Inr VCoroutine, st\<lparr>called := called st @ [a]\<rparr>)
           | Raiser i e \<Rightarrow> (Inl e, st\<lparr>called := called st @ [a]\<rparr>)))"

text \<open>
  \<open>isinstance(task(), _async())\<close>: the second argument is a coroutine object, not
  a class, so \<open>isinstance\<close> raises \<open>TypeError\<close> whatever the first is.
\<close>

definition isinstance_async_obj :: "call_value \<Rightarrow> exn + bool" where
  "isinstance_async_obj v = Inl TypeError"

text \<open>
  \<open>self.app.taskstore.create_task(task)\<close>: \<open>AttributeError\<close> without an app or
  without its \<open>taskstore\<close>; with one, \<open>create_task\<close> misses its required
  \<open>name\<close> argument.
\<close>

definition dispatch_to_taskstore :: "estate \<Rightarrow> exn" where
  "dispatch_to_taskstore st =
     (case app st of
        None \<Rightarrow> AttributeError
      | Some has \<Rightarrow> if has then TypeError else AttributeError)"

text \<open>One pass of the loop body of \<open>execute_subscribers\<close>.\<close>

definition run_subscriber :: "pyobj \<Rightarrow> estate \<Rightarrow> (exn + unit) \<times> estate" where
  "run_subscriber task st =
     (case call_obj task st of
        (Inl e, st1) \<Rightarrow> (Inl e, st1)
      | (Inr v, st1) \<Rightarrow>
          (case isinstance_async_obj v of
             Inl e \<Rightarrow> (Inl e, st1)
           | Inr is_coro \<Rightarrow>
               if is_coro then (Inl (dispatch_to_taskstore st1), st1)
               else (case call_obj task st1 of
                       (Inl e, st2) \<Rightarrow> (Inl e, st2)
                     | (Inr v2, st2) \<Rightarrow> (Inr (), st2))))"

fun run_subscribers :: "pyobj list \<Rightarrow> estate \<Rightarrow> (exn + unit) \<times> estate" where
  "run_subscribers [] st = (Inr (), st)"
| "run_subscribers (task # rest) st =
     (case run_subscriber task st of
        (Inl e, st1) \<Rightarrow> (Inl e, st1)
      | (Inr u, st1) \<Rightarrow> run_subscribers rest st1)"

text \<open>
  \<open>EventStore.execute_subscribers\<close>. The handler is \<open>except Exception as e: raise e\<close>:
  what the body raises reaches the caller.
\<close>

definition execute_subscribers :: "pykey \<Rightarrow> estate \<Rightarrow> (exn + bool) \<times> estate" where
  "execute_subscribers event st =
     (case top_lookup event (eventstore st) of
        Inl e \<Rightarrow> (Inl e, st)
      | Inr d \<Rightarrow>
          (case dict_lookup (KInt 1) d of
             Inl e \<Rightarrow> (Inl e, st)
           | Inr v \<Rightarrow>
               (case run_subscribers [OEvent (fst v), OList (snd v)] st of
                  (Inl e, st1) \<Rightarrow> (Inl e, st1)
                | (Inr u, st1) \<Rightarrow> (Inr True, st1))))"

definition empty_estate :: estate where
  "empty_estate = \<lparr>eventstore = [], app = None, called = []\<rparr>"

text \<open>
  The store after the event \<open>connected\<close> of the module \<open>wifi\<close> was created and two
  plain callables were subscribed to it.
\<close>

definition wifi_estate :: estate where
  "wifi_estate =
     \<lparr>eventstore = [(''wifi'', [(KStr ''connected'', (False, [Callable 0, Callable 1]))])],
      app = None, called = []\<rparr>"

text \<open>
  The same event with a subscriber whose body raises, followed by a plain callable.
\<close>

definition raiser_estate :: estate where
  "raiser_estate =
     \<lparr>eventstore = [(''wifi'', [(KStr ''connected'',
                       (False, [Raiser 0 (Exception ''boom''), Callable 1]))])],
      app = None, called = []\<rparr>"

section \<open>drivers/NTPTime.py\<close>

text \<open>
  The fields of the driver that \<open>__init__\<close> sets once are its configuration; the
  others change while it runs. The clock is the millisecond counter behind
  \<open>time.ticks_ms()\<close>; the driver compares readings with \<open>ticks_diff\<close> only, which
  is safe against wrap-around, so the model keeps the counter unwrapped.
\<close>

record ntp_config =
  sync_interval :: int
  ntp_timeout :: int
  max_retries :: int

record ntp_state =
  last_sync :: int
  initial_sync :: bool
  ntp_status_code :: int

record ntp_world =
  ticks_ms :: int
  settime_calls :: nat

text \<open>
  The environment of the driver: what the \<open>k\<close>-th call of \<open>ntptime.settime()\<close>
  does (\<open>None\<close>: it returns, \<open>Some e\<close>: it raises \<open>e\<close>), how long it takes, and
  whether building the \<open>next_sync\<close> string (\<open>Time().localtime()...\<close>, which reads
  the configuration file) raises.
\<close>

record ntp_env =
  settime_result :: "nat \<Rightarrow> exn option"
  settime_ms :: "nat \<Rightarrow> int"
  localtime_result :: "exn option"

definition ntp_sleep :: "int \<Rightarrow> ntp_world \<Rightarrow> ntp_world" where
  "ntp_sleep seconds w = w\<lparr>ticks_ms := ticks_ms w + max 0 seconds * 1000\<rparr>"

text \<open>The \<open>try\<close> block of \<open>sync_time\<close>.\<close>

definition sync_attempt ::
  "ntp_env \<Rightarrow> ntp_state \<times> ntp_world \<Rightarrow> (exn + unit) \<times> ntp_state \<times> ntp_world" where
  "sync_attempt env sw =
     (case sw of (s, w) \<Rightarrow>
        let s1 = s\<lparr>initial_sync := True\<rparr>;
            k = settime_calls w;
            w1 = w\<lparr>ticks_ms := ticks_ms w + settime_ms env k, settime_calls := Suc k\<rparr>
        in case settime_result env k of
             Some e \<Rightarrow> (Inl e, s1, w1)
           | None \<Rightarrow>
               (let s2 = s1\<lparr>last_sync := ticks_ms w1, ntp_status_code := 1\<rparr> in
                case localtime_result env of
                  Some e \<Rightarrow> (Inl e, s2, w1)
                | None \<Rightarrow> (Inr (), s2, w1)))"

text \<open>
  \<open>NTPTime.sync_time\<close>. The result is what the coroutine returns: \<open>True\<close>,
  \<open>False\<close>, or \<open>None\<close> from the branch that retries (the result of the inner call
  is dropped). The retries stop because \<open>failures\<close> grows towards
  \<open>max_retries - 1\<close>.
\<close>

function sync_time ::
  "ntp_env \<Rightarrow> ntp_config \<Rightarrow> int \<Rightarrow> ntp_state \<times> ntp_world \<Rightarrow> bool option \<times> ntp_state \<times> ntp_world" where
  "sync_time env cfg failures sw =
     (case sync_attempt env sw of
        (Inr u, s1, w1) \<Rightarrow> (Some True, s1, w1)
      | (Inl e, s1, w1) \<Rightarrow>
          if failures < max_retries cfg - 1
          then (case sync_time env cfg (failures + 1) (s1, ntp_sleep 5 w1) of
                  (r, sw') \<Rightarrow> (None, sw'))
          else (Some False, s1\<lparr>last_sync := ticks_ms w1, ntp_status_code := 2\<rparr>, w1))"
  by pat_completeness auto
termination
  by (relation "measure (\<lambda>(env, cfg, failures, sw). nat (max_retries cfg - 1 - failures))") auto

text \<open>
  A time server that never answers (each call takes the ten seconds of the default
  timeout), the defaults of the driver, and a driver that synchronised at \<open>1000\<close> ms
  and whose next synchronisation is due.
\<close>

definition ntp_down :: ntp_env where
  "ntp_down = \<lparr>settime_result = (\<lambda>k. Some OSError), settime_ms = (\<lambda>k. 10000),
               localtime_result = None\<rparr>"

definition ntp_defaults :: ntp_config where
  "ntp_defaults = \<lparr>sync_interval = 86400, ntp_timeout = 10, max_retries = 5\<rparr>"

definition ntp_synced :: ntp_state where
  "ntp_synced = \<lparr>last_sync = 1000, initial_sync = True, ntp_status_code = 1\<rparr>"

definition ntp_due :: ntp_world where
  "ntp_due = \<lparr>ticks_ms = 86402000, settime_calls = 1\<rparr>"

section \<open>drivers/Wifi.py\<close>

record wifi_config =
  retry_interval :: int
  timeout :: int
  max_failures :: int
  backoff_interval :: int

record wifi_state =
  was_connected :: bool
  wifi_status_code :: int

text \<open>
  The world of the driver: the millisecond clock, and a log of the calls of
  \<open>sta_if.connect\<close>, each with the clock and the exported status code at that
  moment. The interface is a function of the clock: \<open>link t\<close> is what
  \<open>isconnected()\<close> answers at time \<open>t\<close>.
\<close>

record wifi_world =
  clock :: int
  attempts :: "(int \<times> int) list"

definition wifi_sleep_ms :: "int \<Rightarrow> wifi_world \<Rightarrow> wifi_world" where
  "wifi_sleep_ms ms w = w\<lparr>clock := clock w + max 0 ms\<rparr>"

definition wifi_sleep :: "int \<Rightarrow> wifi_world \<Rightarrow> wifi_world" where
  "wifi_sleep seconds w = wifi_sleep_ms (seconds * 1000) w"

text \<open>
  The polling loop of \<open>_do_connect\<close>: the clock at which it is left. Each round
  sleeps \<open>100\<close> ms.
\<close>

function wait_connected :: "(int \<Rightarrow> bool) \<Rightarrow> int \<Rightarrow> int \<Rightarrow> int \<Rightarrow> int" where
  "wait_connected link start tmo now =
     (if \<not> link now \<and> now - start < tmo * 1000
      then wait_connected link start tmo (now + 100)
      else now)"
  by pat_completeness auto
termination
  by (relation "measure (\<lambda>(link, start, tmo, now). nat (tmo * 1000 - (now - start)))") auto

text \<open>\<open>WifiDriver._do_connect\<close>.\<close>

definition do_connect ::
  "(int \<Rightarrow> bool) \<Rightarrow> wifi_config \<Rightarrow> wifi_state \<times> wifi_world \<Rightarrow>
   (exn + unit) \<times> wifi_state \<times> wifi_world" where
  "do_connect link cfg sw =
     (case sw of (s, w) \<Rightarrow>
        let start = clock w;
            w1 = w\<lparr>attempts := attempts w @ [(start, wifi_status_code s)]\<rparr>;
            w2 = w1\<lparr>clock := wait_connected link start (timeout cfg) start\<rparr>
        in if clock w2 - start \<ge> timeout cfg * 1000
           then (Inl (Exception ''Connection timed out''), s, w2)
           else (Inr (), s\<lparr>was_connected := True, wifi_status_code := 1\<rparr>, w2))"

text \<open>
  \<open>WifiDriver.connect\<close>. As in \<open>sync_time\<close>, the retrying branch returns
  \<open>None\<close>.
\<close>

function connect ::
  "(int \<Rightarrow> bool) \<Rightarrow> wifi_config \<Rightarrow> int \<Rightarrow> wifi_state \<times> wifi_world \<Rightarrow>
   bool option \<times> wifi_state \<times> wifi_world" where
  "connect link cfg failures sw =
     (case do_connect link cfg sw of
        (Inr u, s1, w1) \<Rightarrow> (Some True, s1, w1)
      | (Inl e, s1, w1) \<Rightarrow>
          if failures < max_failures cfg
          then (case connect link cfg (failures + 1) (s1, wifi_sleep (retry_interval cfg) w1) of
                  (r, sw') \<Rightarrow> (None, sw'))
          else (Some False, s1\<lparr>wifi_status_code := 2\<rparr>, wifi_sleep (backoff_interval cfg) w1))"
  by pat_completeness auto
termination
  by (relation "measure (\<lambda>(link, cfg, failures, sw). nat (max_failures cfg - failures))") auto

text \<open>
  \<open>WifiDriver._wifi_watchdog\<close> is \<open>while True\<close>; the model runs a given number of
  rounds of its body. \<open>connect\<close> is called with its default \<open>failures = 0\<close>.
\<close>

definition watchdog_round ::
  "(int \<Rightarrow> bool) \<Rightarrow> wifi_config \<Rightarrow> wifi_state \<times> wifi_world \<Rightarrow> wifi_state \<times> wifi_world" where
  "watchdog_round link cfg sw =
     (case (if \<not> link (clock (snd sw)) then snd (connect link cfg 0 sw) else sw) of
        (s1, w1) \<Rightarrow>
          ((if link (clock w1) \<and> \<not> was_connected s1
            then s1\<lparr>was_connected := True, wifi_status_code := 1\<rparr> else s1),
           wifi_sleep_ms 100 w1))"

fun wifi_watchdog ::
  "nat \<Rightarrow> (int \<Rightarrow> bool) \<Rightarrow> wifi_config \<Rightarrow> wifi_state \<times> wifi_world \<Rightarrow> wifi_state \<times> wifi_world" where
  "wifi_watchdog 0 link cfg sw = sw"
| "wifi_watchdog (Suc n) link cfg sw = wifi_watchdog n link cfg (watchdog_round link cfg sw)"

text \<open>
  A configuration with two allowed failures, a timeout of one second, five seconds
  between retries and a backoff of three hundred; a driver that has not connected yet.
\<close>

definition wifi_small :: wifi_config where
  "wifi_small = \<lparr>retry_interval = 5, timeout = 1, max_failures = 2, backoff_interval = 300\<rparr>"

definition wifi_boot :: "wifi_state \<times> wifi_world" where
  "wifi_boot = (\<lparr>was_connected = False, wifi_status_code = 0\<rparr>, \<lparr>clock = 0, attempts = []\<rparr>)"

section \<open>drivers/StatusLED.py\<close>

datatype argv = AInt int | ABool bool

text \<open>
  The name of an effect. \<open>set\<close> takes a string and looks it up among the attributes
  of the driver. The model has the four effect methods \<open>off\<close>, \<open>on\<close>,
  \<open>blink\<close> and \<open>breathe\<close>, and \<open>NoAttribute\<close> for a string that names no
  attribute. A string that names another attribute of the driver (an accessor, a
  field, \<open>set\<close> itself) is no effect and has no counterpart in this type.
\<close>

datatype effect_name = EffOff | EffOn | EffBlink | EffBreathe | NoAttribute

text \<open>
  The table \<open>StatusCodes\<close>. Its keys are \<open>str(status_code)\<close>, the decimal
  numerals \<open>"0"\<close> to \<open>"3"\<close>, so the model indexes it by the number; any other
  status code is no key (\<open>KeyError\<close>).
\<close>

definition StatusCodes ::
  "int \<Rightarrow> (effect_name \<times> int list \<times> (string \<times> argv) list) option" where
  "StatusCodes c =
     (if c = 0 then Some (EffOff, [], [])
      else if c = 1 then Some (EffBlink, [2, 300, 200, 1000], [(''loop'', ABool True)])
      else if c = 2 then Some (EffBreathe, [], [(''steps'', AInt 4)])
      else if c = 3 then Some (EffBlink, [3, 300, 200, 500], [(''loop'', ABool True)])
      else None)"

record led =
  led_status_code :: int
  current_task :: "nat option"
  duty :: int
  effects :: "(effect_name \<times> int list \<times> (string \<times> argv) list) aio"

text \<open>
  Whether a call binds its arguments: positional ones fill the first parameters,
  keyword ones must name distinct remaining parameters.
\<close>

definition binds :: "string list \<Rightarrow> int list \<Rightarrow> (string \<times> argv) list \<Rightarrow> bool" where
  "binds params args kwargs \<longleftrightarrow>
     length args \<le> length params \<and> distinct (map fst kwargs) \<and>
     list_all (\<lambda>k. k \<in> set (drop (length args) params)) (map fst kwargs)"

datatype effect_value = RNone | RCoroutine

text \<open>
  \<open>getattr(self, effect)(*args, **kwargs)\<close>. \<open>off\<close> and \<open>on\<close> are plain
  methods that write the duty cycle; \<open>blink\<close> and \<open>breathe\<close> are
  \<open>async def\<close>: the call builds a coroutine object and runs nothing. \<open>getattr\<close>
  of a name that is no attribute raises \<open>AttributeError\<close>.
\<close>

definition call_effect ::
  "effect_name \<Rightarrow> int list \<Rightarrow> (string \<times> argv) list \<Rightarrow> led \<Rightarrow> (exn + effect_value) \<times> led" where
  "call_effect effect args kwargs st =
     (case effect of
        EffOff \<Rightarrow>
          if binds [] args kwargs then (Inr RNone, st\<lparr>duty := 0\<rparr>) else (Inl TypeError, st)
      | EffOn \<Rightarrow>
          if binds [] args kwargs then (Inr RNone, st\<lparr>duty := 1023\<rparr>) else (Inl TypeError, st)
      | EffBlink \<Rightarrow>
          if binds [''flashes'', ''flash_duration'', ''flash_interval'', ''pause_duration'',
                    ''loop''] args kwargs
          then (Inr RCoroutine, st) else (Inl TypeError, st)
      | EffBreathe \<Rightarrow>
          if binds [''steps''] args kwargs then (Inr RCoroutine, st) else (Inl TypeError, st)
      | NoAttribute \<Rightarrow> (Inl AttributeError, st))"

text \<open>
  Modelled from the spec: \<open>utilities.type_coro\<close>, the class that \<open>set\<close> tests the
  result of the effect against, is not among the source files. The spec says that
  effects that are unbounded or long-running are dispatched as a trackable background
  task, and finite ones run synchronously: the test holds for a coroutine object only.
\<close>

definition is_type_coro :: "effect_value \<Rightarrow> bool" where
  "is_type_coro v = (v = RCoroutine)"

text \<open>
  \<open>StatusLED.set\<close>. The task held is cancelled first; \<open>hasattr(self, effect)\<close>
  fails for \<open>NoAttribute\<close> only.
\<close>

definition set_effect ::
  "effect_name \<Rightarrow> int list \<Rightarrow> (string \<times> argv) list \<Rightarrow> led \<Rightarrow> (exn + unit) \<times> led" where
  "set_effect effect args kwargs st =
     (let st1 = (case current_task st of
                   Some t \<Rightarrow> st\<lparr>effects := aio_cancel t (effects st)\<rparr>
                 | None \<Rightarrow> st\<lparr>current_task := None\<rparr>)
      in if effect = NoAttribute
         then (Inl ValueError, st1)
         else (case call_effect effect args kwargs st1 of
                 (Inl e, st2) \<Rightarrow> (Inl e, st2)
               | (Inr func, st2) \<Rightarrow>
                   if is_type_coro func
                   then (case aio_create_task (effect, args, kwargs) (effects st2) of
                           (t, l) \<Rightarrow> (Inr (), st2\<lparr>effects := l, current_task := Some t\<rparr>))
                   else (Inr (), st2)))"

text \<open>
  One round of \<open>StatusLED._check_status_code\<close>, with the status code it reads from
  the application.
\<close>

definition check_status_code :: "int \<Rightarrow> led \<Rightarrow> (exn + unit) \<times> led" where
  "check_status_code status_code st =
     (if led_status_code st \<noteq> status_code
      then (let st1 = st\<lparr>led_status_code := status_code\<rparr> in
            case StatusCodes status_code of
              None \<Rightarrow> (Inl KeyError, st1)
            | Some (effect, args, kwargs) \<Rightarrow> set_effect effect args kwargs st1)
      else (Inr (), st))"

text \<open>
  The engine over the status codes it reads, one per round. An exception ends the
  polling task: the remaining readings are never taken.
\<close>

fun engine_run :: "int list \<Rightarrow> led \<Rightarrow> (exn + unit) \<times> led" where
  "engine_run [] st = (Inr (), st)"
| "engine_run (c # cs) st =
     (case check_status_code c st of
        (Inl e, st1) \<Rightarrow> (Inl e, st1)
      | (Inr u, st1) \<Rightarrow> engine_run cs st1)"

text \<open>The driver after \<open>__init__\<close>, for the status code the application has then.\<close>

definition init_led :: "int \<Rightarrow> led" where
  "init_led c = \<lparr>led_status_code = c, current_task = None, duty = 0,
                 effects = \<lparr>spawned = [], cancelled = []\<rparr>\<rparr>"

text \<open>The effect tasks created so far on which \<open>cancel()\<close> was never called.\<close>

definition live_tasks :: "led \<Rightarrow> nat list" where
  "live_tasks st =
     filter (\<lambda>t. t \<notin> set (cancelled (effects st))) [0..<length (spawned (effects st))]"

text \<open>
  What the engine keeps true: an effect task that was not cancelled is the current
  one.
\<close>

definition led_inv :: "led \<Rightarrow> bool" where
  "led_inv st \<longleftrightarrow> set (live_tasks st) \<subseteq> set_option (current_task st)"

text \<open>The driver while the blink effect of status code \<open>1\<close> runs.\<close>

definition led_blinking :: led where
  "led_blinking =
     \<lparr>led_status_code = 1, current_task = Some 0, duty = 0,
      effects = \<lparr>spawned = [(EffBlink, [2, 300, 200, 1000], [(''loop'', ABool True)])],
                 cancelled = []\<rparr>\<rparr>"

declare sync_time.simps [simp del]
declare connect.simps [simp del]
declare wait_connected.simps [simp del]

section \<open>Properties of the task store\<close>

lemma except_False_returns: "\<exists>b. fst (except_False r) = Inr b"
  by (cases "fst r") (auto simp: except_False_def)

lemma led_tstate_created:
  "create_task (any_coro ''blink'') None (Some ''led'') False (Some []) (Some []) empty_tstate
     = (Created, led_tstate)"
  by (simp add: create_task_def create_task_scoped_def spawn_def aio_create_task_def
      any_coro_def empty_tstate_def led_tstate_def)

subsection \<open>Listing all tasks\<close>

lemma retrieve_all_loop_scope:
  "(m, Scope sub) \<in> set es \<Longrightarrow> retrieve_all_loop es l = Inl TypeError"
proof (induction es l rule: retrieve_all_loop.induct)
  case (1 l)
  then show ?case by simp
next
  case (2 k sub' rest l)
  then show ?case by simp
next
  case (3 k t rest l)
  then show ?case by auto
qed

text \<open>As soon as one module has a scope, the listing is \<open>None\<close>.\<close>

lemma retrieve_all_tasks_scope_None:
  "(m, Scope sub) \<in> set (taskstore st) \<Longrightarrow> retrieve_all_tasks st = None"
  by (simp add: retrieve_all_tasks_def retrieve_all_loop_scope)

text \<open>A store of global tasks only is listed in full, in the order of its keys.\<close>

lemma retrieve_all_loop_global:
  "retrieve_all_loop (map (\<lambda>(k, t). (k, Task t)) kts) l = Inr (l @ map fst kts)"
  by (induction kts arbitrary: l) auto

lemma retrieve_all_tasks_global:
  "taskstore st = map (\<lambda>(k, t). (k, Task t)) kts \<Longrightarrow>
   retrieve_all_tasks st = Some (map fst kts)"
  by (simp add: retrieve_all_tasks_def retrieve_all_loop_global)

text \<open>
  C6. The listing is meant to hold the name of every registered task, those of the
  modules included. Here one task is created under the module \<open>wifi\<close>: it is stored
  and can be retrieved, and the listing is \<open>None\<close> instead of a list with its name.
\<close>

theorem retrieve_all_tasks_misses_module_tasks:
  "(let r = create_task (any_coro ''_wifi_watchdog'') (Some ''watchdog'') (Some ''wifi'') False
              (Some []) (Some []) empty_tstate
    in fst r = Created
       \<and> retrieve_task ''watchdog'' (Some ''wifi'') (snd r) = Some (Task 0)
       \<and> retrieve_all_tasks (snd r) = None)"
  by (simp add: create_task_def create_task_scoped_def spawn_def aio_create_task_def
      any_coro_def empty_tstate_def retrieve_task_def retrieve_all_tasks_def)

subsection \<open>Bulk cancel and delete\<close>

text \<open>
  C7. \<open>cancel_all_tasks\<close> and then \<open>delete_all_tasks\<close> each return a boolean to
  the caller, whatever the store holds and whichever way the interpreter treats a
  dict that shrinks while it is iterated over. On the empty store both answer
  \<open>True\<close>; on a store with a module's scope both answer \<open>False\<close> (the recursive
  call fails and the failure is swallowed).
\<close>

theorem cancel_all_then_delete_all_never_raises:
  "(\<exists>b1 b2. fst (cancel_all_tasks st) = Inr b1
      \<and> fst (delete_all_tasks strict (snd (cancel_all_tasks st))) = Inr b2)
   \<and> cancel_all_tasks empty_tstate = (Inr True, empty_tstate)
   \<and> delete_all_tasks strict empty_tstate = (Inr True, empty_tstate)
   \<and> cancel_all_tasks led_tstate = (Inr False, led_tstate)
   \<and> delete_all_tasks strict led_tstate = (Inr False, led_tstate)"
proof -
  have general: "\<exists>b1 b2. fst (cancel_all_tasks st) = Inr b1
      \<and> fst (delete_all_tasks strict (snd (cancel_all_tasks st))) = Inr b2"
    using except_False_returns [of "cancel_all_loop (taskstore st) st"]
      except_False_returns [of "delete_all_loop strict (taskstore (snd (cancel_all_tasks st)))
        (snd (cancel_all_tasks st))"]
    by (auto simp: cancel_all_tasks_def delete_all_tasks_def)
  have empty: "cancel_all_tasks empty_tstate = (Inr True, empty_tstate)"
    "delete_all_tasks strict empty_tstate = (Inr True, empty_tstate)"
    by (simp_all add: cancel_all_tasks_def delete_all_tasks_def except_False_def empty_tstate_def)
  have nested: "cancel_all_tasks led_tstate = (Inr False, led_tstate)"
    "delete_all_tasks strict led_tstate = (Inr False, led_tstate)"
    by (simp_all add: cancel_all_tasks_def delete_all_tasks_def except_False_def led_tstate_def)
  from general empty nested show ?thesis by blast
qed

subsection \<open>Creating a task that exists\<close>

text \<open>
  C8. When the scope already holds a task under the name and \<open>recreate\<close> is false,
  \<open>create_task\<close> returns the warning and leaves the whole state as it was: the
  stored handle, the tasks created and the cancellations requested.
\<close>

theorem create_task_existing_not_recreated:
  assumes "retrieve_task (case name of Some n \<Rightarrow> n | None \<Rightarrow> coro_name c) module st = Some (Task t)"
  shows "create_task c name module False coro_args coro_kwargs st = (AlreadyExists, st)"
proof (cases module)
  case None
  with assms show ?thesis
    by (simp add: create_task_def create_task_global_def retrieve_task_def)
next
  case (Some m)
  with assms obtain sub where sub: "map_of (taskstore st) m = Some (Scope sub)"
    and t: "map_of sub (case name of Some n \<Rightarrow> n | None \<Rightarrow> coro_name c) = Some t"
    by (auto simp: retrieve_task_def split: option.splits entry.splits)
  from sub have "m \<in> fst ` set (taskstore st)"
    by (metis domI dom_map_of_conv_image_fst)
  with Some sub t show ?thesis
    by (simp add: create_task_def create_task_scoped_def)
qed

theorem create_task_existing_not_recreated_witness:
  "retrieve_task ''blink'' (Some ''led'') led_tstate = Some (Task 0)
   \<and> create_task (any_coro ''blink'') None (Some ''led'') False (Some []) (Some []) led_tstate
       = (AlreadyExists, led_tstate)"
proof -
  have h: "retrieve_task (case None of Some n \<Rightarrow> n | None \<Rightarrow> coro_name (any_coro ''blink''))
             (Some ''led'') led_tstate = Some (Task 0)"
    by (simp add: any_coro_def retrieve_task_def led_tstate_def)
  have h': "retrieve_task ''blink'' (Some ''led'') led_tstate = Some (Task 0)"
    by (simp add: retrieve_task_def led_tstate_def)
  from create_task_existing_not_recreated [OF h, of "Some []" "Some []"] h'
  show ?thesis by simp
qed

subsection \<open>Deleting the last task of a module\<close>

lemma cancel_task_taskstore: "taskstore (snd (cancel_task name module st)) = taskstore st"
  by (simp add: cancel_task_def cancel_task_body_def except_False_def
      split: option.splits entry.splits)

lemma delete_only_key:
  "fst ` set sub = {name} \<Longrightarrow> AList.delete name sub = []"
proof -
  assume keys: "fst ` set sub = {name}"
  have "\<forall>p \<in> set sub. fst p = name"
    using keys by auto
  then show ?thesis
    by (auto simp: AList.delete_eq filter_empty_conv)
qed

lemma update_present_keys:
  "map_of al k = Some v \<Longrightarrow> map fst (AList.update k v' al) = map fst al"
  by (induction al) (auto split: if_splits)

text \<open>
  C10. When \<open>delete_task\<close> succeeds for a task of a module, the module is still a
  key of the store afterwards and holds the scope without that name; the keys of the
  store are the same as before. If the task was the only one of its module, the
  module is left with an empty scope.
\<close>

theorem delete_task_keeps_module_scope:
  assumes "delete_task name (Some m) st = (Inr True, st')"
  shows "\<exists>sub. map_of (taskstore st) m = Some (Scope sub) \<and> name \<in> fst ` set sub
           \<and> map_of (taskstore st') m = Some (Scope (AList.delete name sub))
           \<and> map fst (taskstore st') = map fst (taskstore st)
           \<and> (fst ` set sub = {name} \<longrightarrow> map_of (taskstore st') m = Some (Scope []))"
proof -
  let ?st1 = "snd (cancel_task name (Some m) st)"
  have ts1: "taskstore ?st1 = taskstore st"
    by (rule cancel_task_taskstore)
  from assms have body: "fst (delete_task_body name (Some m) st) = Inr ()"
    and st': "st' = snd (delete_task_body name (Some m) st)"
    by (auto simp: delete_task_def except_False_def split: sum.splits)
  from body obtain sub where sub: "map_of (taskstore st) m = Some (Scope sub)"
    and name: "name \<in> fst ` set sub"
    by (auto simp: delete_task_body_def Let_def ts1 split: option.splits entry.splits if_splits)
  from sub name st' have upd:
    "taskstore st' = AList.update m (Scope (AList.delete name sub)) (taskstore st)"
    by (simp add: delete_task_body_def Let_def ts1)
  have m': "map_of (taskstore st') m = Some (Scope (AList.delete name sub))"
    by (simp add: upd update_conv')
  have keys: "map fst (taskstore st') = map fst (taskstore st)"
    unfolding upd using sub by (rule update_present_keys)
  from sub name m' keys show ?thesis
    by (auto simp: delete_only_key)
qed

theorem delete_task_keeps_module_scope_witness:
  "delete_task ''blink'' (Some ''led'') led_tstate
     = (Inr True, led_tstate\<lparr>taskstore := [(''led'', Scope [])],
                               loop := \<lparr>spawned = [(''blink'', [], [])], cancelled = [0]\<rparr>\<rparr>)
   \<and> map_of (taskstore led_tstate) ''led'' = Some (Scope [(''blink'', 0)])
   \<and> map_of [(''led'', Scope [])] ''led'' = Some (Scope (AList.delete ''blink'' [(''blink'', 0::nat)]))"
proof -
  have ok: "delete_task ''blink'' (Some ''led'') led_tstate
     = (Inr True, led_tstate\<lparr>taskstore := [(''led'', Scope [])],
                               loop := \<lparr>spawned = [(''blink'', [], [])], cancelled = [0]\<rparr>\<rparr>)"
    by (simp add: delete_task_def delete_task_body_def except_False_def Let_def
        cancel_task_def cancel_task_body_def aio_cancel_def led_tstate_def)
  from delete_task_keeps_module_scope [OF ok] ok
  show ?thesis
    by (simp add: led_tstate_def)
qed

section \<open>Properties of the event store\<close>

lemma wifi_estate_created:
  "create_event (MStr ''wifi'') (KStr ''connected'') empty_estate
     = (Inr True, \<lparr>eventstore = [(''wifi'', [(KStr ''connected'', (False, []))])],
                   app = None, called = []\<rparr>)"
  by (simp add: create_event_def resolve_module_def event_lookup_def top_lookup_def
      dict_lookup_def event_store_def empty_estate_def)

lemma top_lookup_miss: "top_lookup k es = Inl e \<Longrightarrow> e = KeyError"
  by (auto simp: top_lookup_def split: pykey.splits option.splits)

lemma dict_lookup_miss: "dict_lookup k d = Inl e \<Longrightarrow> e = KeyError"
  by (auto simp: dict_lookup_def split: option.splits)

subsection \<open>Firing the subscribers\<close>

text \<open>Every pass of the loop body raises: at the latest in \<open>isinstance\<close>.\<close>

lemma run_subscriber_raises: "\<exists>e. fst (run_subscriber task st) = Inl e"
  by (cases "call_obj task st"; cases "fst (call_obj task st)")
    (auto simp: run_subscriber_def isinstance_async_obj_def)

lemma run_tuple_raises:
  "run_subscribers [OEvent b, OList l] st = (Inl TypeError, st)"
  by (simp add: run_subscriber_def call_obj_def)

text \<open>
  Whatever it is called with, \<open>execute_subscribers\<close> raises and leaves the state
  alone: no subscriber is called.
\<close>

lemma execute_subscribers_raises:
  "execute_subscribers event st = (Inl KeyError, st)
   \<or> execute_subscribers event st = (Inl TypeError, st)"
proof (cases "top_lookup event (eventstore st)")
  case (Inl e)
  then show ?thesis
    by (simp add: execute_subscribers_def top_lookup_miss)
next
  case (Inr d)
  show ?thesis
  proof (cases "dict_lookup (KInt 1) d")
    case (Inl e)
    with Inr show ?thesis
      by (simp add: execute_subscribers_def dict_lookup_miss)
  next
    case inner: (Inr v)
    have "run_subscribers [OEvent (fst v), OList (snd v)] st = (Inl TypeError, st)"
      by (rule run_tuple_raises)
    with Inr inner show ?thesis
      by (simp add: execute_subscribers_def)
  qed
qed

text \<open>
  C3. The event \<open>connected\<close> of the module \<open>wifi\<close> is created and two plain
  callables are subscribed. Firing is meant to call both once, in that order. Called
  with the signal object, with the event name or with the module name,
  \<open>execute_subscribers\<close> raises \<open>KeyError\<close> and the log of calls stays empty.
\<close>

theorem execute_subscribers_invokes_nothing:
  "subscribe_task (MStr ''wifi'') (KStr ''connected'') (Callable 1)
     (snd (subscribe_task (MStr ''wifi'') (KStr ''connected'') (Callable 0)
        (snd (create_event (MStr ''wifi'') (KStr ''connected'') empty_estate))))
     = (Inr True, wifi_estate)
   \<and> execute_subscribers (KObj 0) wifi_estate = (Inl KeyError, wifi_estate)
   \<and> execute_subscribers (KStr ''connected'') wifi_estate = (Inl KeyError, wifi_estate)
   \<and> execute_subscribers (KStr ''wifi'') wifi_estate = (Inl KeyError, wifi_estate)
   \<and> called wifi_estate = []"
  by (simp add: create_event_def subscribe_task_def subscribe_task_body_def except_False_def
      resolve_module_def event_lookup_def top_lookup_def dict_lookup_def event_store_def
      empty_estate_def wifi_estate_def execute_subscribers_def)

subsection \<open>Failures of lookups and of bookkeeping\<close>

lemma execute_subscribers_not_False: "fst (execute_subscribers event st) \<noteq> Inr False"
  using execute_subscribers_raises [of event st] by auto

lemma set_event_body_raises: "\<exists>e. set_event_body name st = (Inl e, st)"
  by (auto simp: set_event_body_def split: sum.splits)

text \<open>\<open>set_event\<close> answers \<open>False\<close> and changes nothing, for every event.\<close>

lemma set_event_False:
  "resolve_module module = Inr m \<Longrightarrow> set_event module name st = (Inr False, st)"
  using set_event_body_raises [of name st]
  by (auto simp: set_event_def except_False_def)

text \<open>With a module that is a string or has a name, these methods return a value.\<close>

lemma registry_ops_return:
  assumes "resolve_module module = Inr m"
  shows "\<exists>b. fst (create_event module name st) = Inr b"
    and "\<exists>r. retrieve_event module name st = Inr r"
    and "\<exists>b. fst (set_event module name st) = Inr b"
    and "\<exists>b. fst (clear_event module name st) = Inr b"
    and "\<exists>b. fst (delete_event module name st) = Inr b"
    and "\<exists>b. fst (subscribe_task module name a st) = Inr b"
    and "\<exists>b. fst (unsubscribe_task module name a st) = Inr b"
  using assms
  by (auto simp: create_event_def retrieve_event_def set_event_def clear_event_def
      delete_event_def subscribe_task_def unsubscribe_task_def except_False_returns Let_def
      split: sum.splits)

text \<open>
  C4. The claim sets the firing of subscribers, where an exception reaches the caller,
  against the methods that look events up and keep the books, which are to answer
  \<open>False\<close> or \<open>None\<close> on every failure and never raise. Every one of these
  methods reads \<open>module.__name__\<close> before its \<open>try\<close>: called with a module that
  is no string and has no name, it raises \<open>AttributeError\<close> to the caller, also
  for an event that exists. And \<open>execute_subscribers\<close> does not get as far as a
  subscriber: on a store whose first subscriber would raise, what reaches the caller
  is the \<open>KeyError\<close> of its own lookup, and nothing was called.
\<close>

theorem bookkeeping_raises_on_nameless_module:
  "create_event MNameless (KStr ''x'') empty_estate = (Inl AttributeError, empty_estate)
   \<and> retrieve_event MNameless (KStr ''connected'') wifi_estate = Inl AttributeError
   \<and> set_event MNameless (KStr ''connected'') wifi_estate = (Inl AttributeError, wifi_estate)
   \<and> clear_event MNameless (KStr ''connected'') wifi_estate = (Inl AttributeError, wifi_estate)
   \<and> delete_event MNameless (KStr ''connected'') wifi_estate = (Inl AttributeError, wifi_estate)
   \<and> subscribe_task MNameless (KStr ''connected'') (Callable 2) wifi_estate
       = (Inl AttributeError, wifi_estate)
   \<and> unsubscribe_task MNameless (KStr ''connected'') (Callable 0) wifi_estate
       = (Inl AttributeError, wifi_estate)
   \<and> execute_subscribers (KObj 0) raiser_estate = (Inl KeyError, raiser_estate)
   \<and> called raiser_estate = []"
  by (simp add: create_event_def retrieve_event_def set_event_def clear_event_def
      delete_event_def subscribe_task_def unsubscribe_task_def resolve_module_def
      execute_subscribers_def top_lookup_def raiser_estate_def)

subsection \<open>Setting an event\<close>

text \<open>
  C5. After the event \<open>connected\<close> of the module \<open>wifi\<close> was created,
  \<open>set_event\<close> for it is meant to answer \<open>True\<close> and leave the signal set. It
  answers \<open>False\<close>, the store is unchanged and the signal is still clear.
\<close>

theorem set_event_never_sets:
  "(let st = snd (create_event (MStr ''wifi'') (KStr ''connected'') empty_estate)
    in fst (create_event (MStr ''wifi'') (KStr ''connected'') empty_estate) = Inr True
       \<and> set_event (MStr ''wifi'') (KStr ''connected'') st = (Inr False, st)
       \<and> retrieve_event (MStr ''wifi'') (KStr ''connected'') st = Inr (Some False))"
  by (simp add: wifi_estate_created set_event_def set_event_body_def except_False_def
      retrieve_event_def resolve_module_def event_lookup_def top_lookup_def dict_lookup_def)

section \<open>Properties of the time synchronisation\<close>

lemma sync_attempt_fails:
  assumes "\<not> (settime_result env (settime_calls w) = None \<and> localtime_result env = None)"
  shows "\<exists>e s1 w1. sync_attempt env (s, w) = (Inl e, s1, w1) \<and> initial_sync s1
           \<and> settime_calls w1 = Suc (settime_calls w)"
  using assms by (auto simp: sync_attempt_def Let_def split: option.splits)

lemma sync_time_all_fail:
  assumes fails: "\<forall>k. \<not> (settime_result env k = None \<and> localtime_result env = None)"
  shows "\<exists>r s' w'. sync_time env cfg f (s, w) = (r, s', w') \<and> ntp_status_code s' = 2
           \<and> last_sync s' = ticks_ms w' \<and> initial_sync s'
           \<and> settime_calls w' = settime_calls w + nat (max 1 (max_retries cfg - f))"
proof (induction "nat (max_retries cfg - 1 - f)" arbitrary: f s w)
  case 0
  from fails obtain e s1 w1 where att: "sync_attempt env (s, w) = (Inl e, s1, w1)"
    and init: "initial_sync s1" and calls: "settime_calls w1 = Suc (settime_calls w)"
    using sync_attempt_fails [of env w s] by blast
  from 0 have last: "\<not> f < max_retries cfg - 1" by simp
  then have "nat (max 1 (max_retries cfg - f)) = 1" by simp
  with att init calls last show ?case
    by (simp add: sync_time.simps [of env cfg f])
next
  case (Suc n)
  from fails obtain e s1 w1 where att: "sync_attempt env (s, w) = (Inl e, s1, w1)"
    and init: "initial_sync s1" and calls: "settime_calls w1 = Suc (settime_calls w)"
    using sync_attempt_fails [of env w s] by blast
  from Suc.hyps(2) have more: "f < max_retries cfg - 1" by simp
  from Suc.hyps(2) have "n = nat (max_retries cfg - 1 - (f + 1))" by simp
  from Suc.hyps(1) [OF this, of s1 "ntp_sleep 5 w1"]
  obtain r s' w' where rec: "sync_time env cfg (f + 1) (s1, ntp_sleep 5 w1) = (r, s', w')"
    and st: "ntp_status_code s' = 2" "last_sync s' = ticks_ms w'" "initial_sync s'"
    and c: "settime_calls w' = settime_calls (ntp_sleep 5 w1) + nat (max 1 (max_retries cfg - (f + 1)))"
    by blast
  from more have "nat (max 1 (max_retries cfg - f)) = Suc (nat (max 1 (max_retries cfg - (f + 1))))"
    by simp
  with c calls have "settime_calls w' = settime_calls w + nat (max 1 (max_retries cfg - f))"
    by (simp add: ntp_sleep_def)
  with att more rec st show ?case
    by (simp add: sync_time.simps [of env cfg f])
qed

text \<open>
  C1. When every attempt has failed, the status code is to become \<open>2\<close> and the
  timestamp of the last synchronisation is to stay as it was. With a server that never
  answers and the default five retries, a driver that had synchronised at \<open>1000\<close>
  ms ends with status code \<open>2\<close>, as claimed, but with \<open>last_sync\<close> set to
  \<open>86472000\<close>, the clock at the last failure, though no synchronisation took place.
\<close>

theorem sync_time_exhausted_overwrites_last_sync:
  "sync_time ntp_down ntp_defaults 0 (ntp_synced, ntp_due)
     = (None, \<lparr>last_sync = 86472000, initial_sync = True, ntp_status_code = 2\<rparr>,
        \<lparr>ticks_ms = 86472000, settime_calls = 6\<rparr>)
   \<and> last_sync ntp_synced = 1000"
  by (simp add: sync_time.simps sync_attempt_def ntp_sleep_def ntp_down_def ntp_defaults_def
      ntp_synced_def ntp_due_def)

text \<open>
  In general: when every attempt fails (the time server raises, or building the string
  of the next synchronisation does), \<open>sync_time\<close> returns after \<open>max_retries\<close>
  attempts (one, if \<open>max_retries\<close> is below one) with status code \<open>2\<close> and with
  \<open>last_sync\<close> equal to the clock at the last failure.
\<close>

lemma sync_time_exhausted:
  assumes "\<forall>k. \<not> (settime_result env k = None \<and> localtime_result env = None)"
  shows "\<exists>r s' w'. sync_time env cfg 0 (s, w) = (r, s', w') \<and> ntp_status_code s' = 2
           \<and> last_sync s' = ticks_ms w' \<and> initial_sync s'
           \<and> settime_calls w' = settime_calls w + nat (max 1 (max_retries cfg))"
  using sync_time_all_fail [OF assms, of cfg 0 s w] by simp

section \<open>Properties of the network watchdog\<close>

lemma wait_connected_exit:
  "link (wait_connected link start tmo now)
   \<or> tmo * 1000 \<le> wait_connected link start tmo now - start"
proof (induction link start tmo now rule: wait_connected.induct)
  case (1 link start tmo now)
  show ?case
  proof (cases "\<not> link now \<and> now - start < tmo * 1000")
    case True
    then have "wait_connected link start tmo now = wait_connected link start tmo (now + 100)"
      by (subst wait_connected.simps) simp
    with "1.IH" [OF True] show ?thesis by simp
  next
    case False
    then have "wait_connected link start tmo now = now"
      by (subst wait_connected.simps) auto
    with False show ?thesis by auto
  qed
qed

text \<open>On an interface that never connects, every attempt times out.\<close>

lemma do_connect_never_up:
  assumes "\<forall>t. \<not> link t"
  shows "\<exists>w1. do_connect link cfg (s, w) = (Inl (Exception ''Connection timed out''), s, w1)
           \<and> attempts w1 = attempts w @ [(clock w, wifi_status_code s)]"
  using assms wait_connected_exit [of link "clock w" "timeout cfg" "clock w"]
  by (simp add: do_connect_def Let_def)

text \<open>
  On such an interface \<open>connect\<close> ends with status code \<open>2\<close> after
  \<open>max_failures + 1\<close> attempts (counted from \<open>failures\<close>), each of them made
  while the status code still was what it was before.
\<close>

lemma connect_never_up:
  assumes down: "\<forall>t. \<not> link t"
  shows "\<exists>r s' w'. connect link cfg f (s, w) = (r, s', w') \<and> wifi_status_code s' = 2
           \<and> map snd (attempts w') =
               map snd (attempts w) @ replicate (Suc (nat (max_failures cfg - f))) (wifi_status_code s)"
proof (induction "nat (max_failures cfg - f)" arbitrary: f s w)
  case 0
  from down obtain w1 where att:
    "do_connect link cfg (s, w) = (Inl (Exception ''Connection timed out''), s, w1)"
    and log: "attempts w1 = attempts w @ [(clock w, wifi_status_code s)]"
    using do_connect_never_up [of link cfg s w] by blast
  from 0 have last: "\<not> f < max_failures cfg" by simp
  with att log 0 show ?case
    by (simp add: connect.simps [of link cfg f] wifi_sleep_def wifi_sleep_ms_def)
next
  case (Suc n)
  from down obtain w1 where att:
    "do_connect link cfg (s, w) = (Inl (Exception ''Connection timed out''), s, w1)"
    and log: "attempts w1 = attempts w @ [(clock w, wifi_status_code s)]"
    using do_connect_never_up [of link cfg s w] by blast
  from Suc.hyps(2) have more: "f < max_failures cfg" by simp
  from Suc.hyps(2) have n: "n = nat (max_failures cfg - (f + 1))" by simp
  from Suc.hyps(1) [OF n, of s "wifi_sleep (retry_interval cfg) w1"]
  obtain r s' w' where rec:
    "connect link cfg (f + 1) (s, wifi_sleep (retry_interval cfg) w1) = (r, s', w')"
    and st: "wifi_status_code s' = 2"
    and l: "map snd (attempts w') = map snd (attempts (wifi_sleep (retry_interval cfg) w1))
              @ replicate (Suc (nat (max_failures cfg - (f + 1)))) (wifi_status_code s)"
    by blast
  from more have "nat (max_failures cfg - f) = Suc (nat (max_failures cfg - (f + 1)))"
    by simp
  with l log have "map snd (attempts w') =
      map snd (attempts w) @ replicate (Suc (nat (max_failures cfg - f))) (wifi_status_code s)"
    by (simp add: wifi_sleep_def wifi_sleep_ms_def)
  with att more rec st show ?case
    by (simp add: connect.simps [of link cfg f])
qed

text \<open>
  C2. Two rounds of the watchdog on an interface that never connects, with
  \<open>max_failures = 2\<close>: the log holds the clock and the status code of each attempt.
  The first two attempts time out at \<open>1000\<close> and \<open>7000\<close> ms. The claim asks for
  status code \<open>2\<close> and a backoff of \<open>300\<close> s then; the driver makes a third attempt
  five seconds later, at \<open>12000\<close> ms, with status code \<open>0\<close>, and only the failure
  of that one sets the code and starts the backoff. The attempt after it does wait the
  backoff and starts a new cycle of three.
\<close>

theorem connect_backs_off_one_failure_late:
  "wifi_watchdog 2 (\<lambda>t. False) wifi_small wifi_boot
     = (\<lparr>was_connected = False, wifi_status_code = 2\<rparr>,
        \<lparr>clock = 626200,
         attempts = [(0, 0), (6000, 0), (12000, 0), (313100, 2), (319100, 2), (325100, 2)]\<rparr>)"
  by (simp add: watchdog_round_def connect.simps do_connect_def wait_connected.simps
      wifi_sleep_def wifi_sleep_ms_def wifi_small_def wifi_boot_def Let_def eval_nat_numeral)

section \<open>Properties of the status indicator\<close>

lemma set_live_tasks:
  "set (live_tasks st) =
     {t. t < length (spawned (effects st)) \<and> t \<notin> set (cancelled (effects st))}"
  by (auto simp: live_tasks_def)

lemma call_effect_frame:
  "effects (snd (call_effect effect args kwargs st)) = effects st
   \<and> current_task (snd (call_effect effect args kwargs st)) = current_task st"
  by (cases effect) (simp_all add: call_effect_def)

text \<open>\<open>set\<close> begins by cancelling the task it holds.\<close>

lemma set_effect_cancels:
  "current_task st = Some t \<Longrightarrow>
   t \<in> set (cancelled (effects (snd (set_effect effect args kwargs st))))"
proof -
  assume cur: "current_task st = Some t"
  define st1 where "st1 = st\<lparr>effects := aio_cancel t (effects st)\<rparr>"
  have c1: "t \<in> set (cancelled (effects st1))"
    by (simp add: st1_def aio_cancel_def)
  obtain r st2 where call: "call_effect effect args kwargs st1 = (r, st2)"
    by (cases "call_effect effect args kwargs st1")
  with call_effect_frame [of effect args kwargs st1] have e2: "effects st2 = effects st1"
    by simp
  from cur call c1 e2 show ?thesis
    by (cases r) (auto simp: set_effect_def Let_def st1_def [symmetric] aio_create_task_def)
qed

lemma set_effect_inv:
  assumes "led_inv st"
  shows "led_inv (snd (set_effect effect args kwargs st))"
proof -
  define st1 where "st1 = (case current_task st of
                   Some t \<Rightarrow> st\<lparr>effects := aio_cancel t (effects st)\<rparr>
                 | None \<Rightarrow> st\<lparr>current_task := None\<rparr>)"
  from assms have dead: "live_tasks st1 = []"
    by (cases "current_task st")
      (auto simp: led_inv_def st1_def live_tasks_def aio_cancel_def filter_empty_conv)
  obtain r st2 where call: "call_effect effect args kwargs st1 = (r, st2)"
    by (cases "call_effect effect args kwargs st1")
  with call_effect_frame [of effect args kwargs st1]
  have e2: "effects st2 = effects st1" and c2: "current_task st2 = current_task st1"
    by simp_all
  from dead e2 have dead2: "live_tasks st2 = []"
    by (simp add: live_tasks_def)
  have inv1: "led_inv st1" using dead by (simp add: led_inv_def)
  have inv2: "led_inv st2" using dead2 by (simp add: led_inv_def)
  have new: "led_inv (st2\<lparr>effects := (effects st2)\<lparr>spawned := spawned (effects st2) @ [c]\<rparr>,
                          current_task := Some (length (spawned (effects st2)))\<rparr>)" for c
    using dead2 by (auto simp: led_inv_def set_live_tasks filter_empty_conv live_tasks_def less_Suc_eq)
  show ?thesis
    using inv1 inv2 new call
    by (cases r) (auto simp: set_effect_def Let_def st1_def [symmetric] aio_create_task_def)
qed

lemma check_status_code_inv:
  "led_inv st \<Longrightarrow> led_inv (snd (check_status_code c st))"
proof -
  assume inv: "led_inv st"
  then have inv': "led_inv (st\<lparr>led_status_code := c\<rparr>)"
    by (simp add: led_inv_def live_tasks_def)
  show ?thesis
  proof (cases "StatusCodes c")
    case None
    with inv inv' show ?thesis by (simp add: check_status_code_def Let_def)
  next
    case (Some eff)
    obtain effect args kwargs where "eff = (effect, args, kwargs)"
      by (cases eff)
    with Some inv set_effect_inv [OF inv', of effect args kwargs] show ?thesis
      by (simp add: check_status_code_def Let_def)
  qed
qed

lemma engine_run_inv: "led_inv st \<Longrightarrow> led_inv (snd (engine_run cs st))"
proof (induction cs arbitrary: st)
  case Nil
  then show ?case by simp
next
  case (Cons c cs)
  obtain r st1 where step: "check_status_code c st = (r, st1)"
    by (cases "check_status_code c st")
  with check_status_code_inv [OF Cons.prems, of c] have "led_inv st1" by simp
  with step Cons.IH [of st1] show ?case
    by (cases r) simp_all
qed

lemma init_led_inv: "led_inv (init_led c)"
  by (simp add: led_inv_def init_led_def live_tasks_def)

lemma led_inv_at_most_one: "led_inv st \<Longrightarrow> length (live_tasks st) \<le> 1"
proof -
  assume inv: "led_inv st"
  have "distinct (live_tasks st)" by (simp add: live_tasks_def)
  then have "length (live_tasks st) = card (set (live_tasks st))"
    by (simp add: distinct_card)
  also have "\<dots> \<le> card (set_option (current_task st))"
    using inv by (intro card_mono) (auto simp: led_inv_def)
  also have "\<dots> \<le> 1"
    by (cases "current_task st") simp_all
  finally show ?thesis .
qed

lemma led_blinking_reached: "engine_run [1] (init_led 0) = (Inr (), led_blinking)"
  by (simp add: check_status_code_def StatusCodes_def set_effect_def call_effect_def binds_def
      is_type_coro_def aio_create_task_def init_led_def led_blinking_def Let_def)

text \<open>
  C9. After any sequence of status codes read by the engine, at most one effect task
  exists that was not cancelled. When the engine reads a status code of the table that
  differs from the last one while it holds an effect task, that task has been
  cancelled when the round ends.
\<close>

theorem engine_cancels_before_new_effect:
  "length (live_tasks (snd (engine_run codes (init_led c0)))) \<le> 1
   \<and> (current_task st = Some t \<and> led_status_code st \<noteq> c \<and> StatusCodes c \<noteq> None
        \<longrightarrow> t \<in> set (cancelled (effects (snd (check_status_code c st)))))"
proof -
  have one: "length (live_tasks (snd (engine_run codes (init_led c0)))) \<le> 1"
    by (intro led_inv_at_most_one engine_run_inv init_led_inv)
  have cancel: "t \<in> set (cancelled (effects (snd (check_status_code c st))))"
    if "current_task st = Some t" "led_status_code st \<noteq> c" "StatusCodes c \<noteq> None"
  proof -
    from that(3) obtain effect args kwargs where "StatusCodes c = Some (effect, args, kwargs)"
      by (cases "StatusCodes c") auto
    with that(1,2) set_effect_cancels [of "st\<lparr>led_status_code := c\<rparr>" t effect args kwargs]
    show ?thesis
      by (simp add: check_status_code_def Let_def)
  qed
  from one cancel show ?thesis by blast
qed

theorem engine_cancels_before_new_effect_witness:
  "current_task led_blinking = Some 0 \<and> led_status_code led_blinking \<noteq> 2
   \<and> StatusCodes 2 \<noteq> None
   \<and> length (live_tasks (snd (engine_run [1, 2] (init_led 0)))) \<le> 1
   \<and> 0 \<in> set (cancelled (effects (snd (check_status_code 2 led_blinking))))
   \<and> live_tasks (snd (engine_run [1, 2] (init_led 0))) = [1]"
proof -
  have h1: "current_task led_blinking = Some 0"
    by (simp add: led_blinking_def)
  have h2: "led_status_code led_blinking \<noteq> 2"
    by (simp add: led_blinking_def)
  have h3: "StatusCodes 2 \<noteq> None"
    by (simp add: StatusCodes_def)
  have run: "live_tasks (snd (engine_run [1, 2] (init_led 0))) = [1]"
    by (simp add: check_status_code_def StatusCodes_def set_effect_def call_effect_def binds_def
      is_type_coro_def aio_create_task_def aio_cancel_def init_led_def live_tasks_def Let_def
      upt_rec)
  from engine_cancels_before_new_effect [of "[1, 2]" 0 led_blinking 0 2] h1 h2 h3 run
  show ?thesis by simp
qed

end
